theory Spec2Isabelle
  imports Complex_Main "HOL-Library.Word"
begin

section \<open>The RemoveColor filter\<close>

text \<open>
  JavaScript numbers are kept abstract: a type \<open>'n\<close> with \<open>+\<close>, \<open>-\<close>, \<open>*\<close> and \<open><\<close> of
  which no law is assumed, so that every statement below holds for IEEE doubles (rounding,
  infinities and NaN included) as well as for exact arithmetic. The parameter \<open>num\<close> turns
  an integer (a literal such as 255, or a byte read from the buffer) into such a number.
  \<open>a > b\<close> is \<open>b < a\<close>, as in JavaScript.
\<close>

text \<open>The fields of the class and of \<open>removeColorDefaultValues\<close>.\<close>

record 'n RemoveColor =
  type :: string
  color :: string
  fragmentSource :: string
  distance :: 'n
  useAlpha :: bool

text \<open>
  \<open>imageData.data\<close> is a \<open>Uint8ClampedArray\<close>: a fixed-length array of bytes. Reading
  it out of range gives \<open>undefined\<close> (here \<open>None\<close>); writing it out of range is ignored,
  which is what \<open>data[i := v]\<close> does.
\<close>

type_synonym ImageDataArray = "8 word list"

definition read :: "ImageDataArray \<Rightarrow> nat \<Rightarrow> 8 word option" where
  "read data i = (if i < length data then Some (data ! i) else None)"

text \<open>
  \<open>v > c\<close> and \<open>v < c\<close> for a value \<open>v\<close> read from the buffer: \<open>undefined\<close> converts to
  NaN, and every comparison with NaN is false.
\<close>

definition gt :: "(nat \<Rightarrow> 'n::ord) \<Rightarrow> 8 word option \<Rightarrow> 'n \<Rightarrow> bool" where
  "gt num v c = (case v of None \<Rightarrow> False | Some w \<Rightarrow> num (unat w) > c)"

definition lt :: "(nat \<Rightarrow> 'n::ord) \<Rightarrow> 8 word option \<Rightarrow> 'n \<Rightarrow> bool" where
  "lt num v c = (case v of None \<Rightarrow> False | Some w \<Rightarrow> num (unat w) < c)"

text \<open>The \<open>for\<close> loop of \<open>applyTo2d\<close>, from index \<open>i\<close> on.\<close>

function applyTo2d_loop ::
  "(nat \<Rightarrow> 'n::ord) \<Rightarrow> 'n list \<Rightarrow> 'n list \<Rightarrow> nat \<Rightarrow> ImageDataArray \<Rightarrow> ImageDataArray" where
  "applyTo2d_loop num lowC highC i data =
     (if i < length data then
        (let r = read data i;
             g = read data (i + 1);
             b = read data (i + 2)
         in applyTo2d_loop num lowC highC (i + 4)
              (if gt num r (lowC ! 0) \<and>
                  gt num g (lowC ! 1) \<and>
                  gt num b (lowC ! 2) \<and>
                  lt num r (highC ! 0) \<and>
                  lt num g (highC ! 1) \<and>
                  lt num b (highC ! 2)
               then data[i + 3 := 0]
               else data))
      else data)"
  by pat_completeness auto
termination
  by (relation "measure (\<lambda>(num, lowC, highC, i, data). length data - i)") auto

declare applyTo2d_loop.simps [simp del]

text \<open>
  \<open>applyTo2d\<close>. The class \<open>Color\<close> is imported from \<open>../color\<close>; what
  \<open>new Color(c).getSource()\<close> returns for the colour string \<open>c\<close> is the parameter
  \<open>getSource\<close>, an array read by index (\<open>source[k]\<close> is \<open>source k\<close>). The buffer is
  changed in place; the model returns it.
\<close>

definition applyTo2d ::
  "(nat \<Rightarrow> 'n::{plus,minus,times,ord}) \<Rightarrow> (string \<Rightarrow> nat \<Rightarrow> 'n) \<Rightarrow> 'n RemoveColor \<Rightarrow>
     ImageDataArray \<Rightarrow> ImageDataArray" where
  "applyTo2d num getSource this data =
     (let distance = distance this * num 255;
          source = getSource (color this);
          lowC = [source 0 - distance, source 1 - distance, source 2 - distance];
          highC = [source 0 + distance, source 1 + distance, source 2 + distance]
      in applyTo2d_loop num lowC highC 0 data)"

text \<open>The condition of the loop body at pixel \<open>i\<close>, for the proofs.\<close>

definition in_band :: "(nat \<Rightarrow> 'n::ord) \<Rightarrow> 'n list \<Rightarrow> 'n list \<Rightarrow> ImageDataArray \<Rightarrow> nat \<Rightarrow> bool" where
  "in_band num lowC highC data i =
     (gt num (read data i) (lowC ! 0) \<and>
      gt num (read data (i + 1)) (lowC ! 1) \<and>
      gt num (read data (i + 2)) (lowC ! 2) \<and>
      lt num (read data i) (highC ! 0) \<and>
      lt num (read data (i + 1)) (highC ! 1) \<and>
      lt num (read data (i + 2)) (highC ! 2))"

section \<open>Side-effect reactors\<close>

text \<open>
  JavaScript values, as far as \<open>===\<close> tells them apart. A number is NaN, an infinity
  (with its sign) or a finite value; \<open>+0\<close> and \<open>-0\<close>, which \<open>===\<close> identifies, are both
  \<open>Finite 0\<close>. An object is its reference: two objects with the same contents are two
  values.
\<close>

datatype JSNumber = NaN | Infinity bool | Finite real

datatype JSValue =
    Undefined
  | Null
  | Boolean bool
  | Number JSNumber
  | String string
  | Symbol nat
  | BigInt int
  | Object nat

text \<open>
  \<open>x === y\<close>: values of different types are different, NaN is different from every
  number, itself included, and everything else is compared by value (objects by
  reference). \<open>x !== y\<close> is its negation.
\<close>

fun strict_equal :: "JSValue \<Rightarrow> JSValue \<Rightarrow> bool" where
  "strict_equal (Number x) (Number y) = (x \<noteq> NaN \<and> y \<noteq> NaN \<and> x = y)"
| "strict_equal x y = (x = y)"

text \<open>\<open>keys: K[] | '*'\<close>.\<close>

datatype 'k Keys = Star | Keys "'k list"

text \<open>
  The abstract class \<open>SideEffect\<close>. Its method \<open>onChange\<close> is abstract and returns
  nothing: a call of it is recorded as a value of \<open>Call\<close>, and \<open>invoke\<close> returns the
  calls it makes, in order.
\<close>

record 'k SideEffect =
  name :: string
  keys :: "'k Keys"

datatype 'k Call = OnChange 'k JSValue JSValue

text \<open>
  \<open>invoke\<close>: the two \<open>&&\<close> are evaluated left to right, and \<open>includes\<close> is reached only
  when \<open>keys\<close> is an array. The keys are property names, for which \<open>includes\<close> compares
  as \<open>=\<close> does.
\<close>

definition invoke :: "'k SideEffect \<Rightarrow> 'k \<Rightarrow> JSValue \<Rightarrow> JSValue \<Rightarrow> 'k Call list" where
  "invoke this key value prevValue =
     (if (case keys this of Star \<Rightarrow> True | Keys ks \<Rightarrow> key \<in> set ks) \<and>
         \<not> strict_equal value prevValue
      then [OnChange key value prevValue]
      else [])"

section \<open>Event names\<close>

text \<open>
  The event types are records indexed by event names; the names are built by template
  literal types. Each type is modelled by the list of its keys, an intersection of two
  types by the concatenation of their keys.
\<close>

definition BeforeSuffix :: "string \<Rightarrow> string" where
  "BeforeSuffix T = T @ '':before''"

definition WithBeforeSuffix :: "string \<Rightarrow> string list" where
  "WithBeforeSuffix T = [T, BeforeSuffix T]"

definition TPointerEvents :: "string \<Rightarrow> string list" where
  "TPointerEvents Prefix =
     map (\<lambda>k. Prefix @ k)
       (WithBeforeSuffix ''down'' @ WithBeforeSuffix ''move'' @ WithBeforeSuffix ''up'' @
        [''dblclick'']) @
     [Prefix @ ''wheel''] @
     [Prefix @ ''over''] @
     [Prefix @ ''out'']"

definition TPointerEventsSuffixes :: "string list" where
  "TPointerEventsSuffixes =
     [''down'', ''move'', ''up'', ''dblclick'', ''up:before'', ''down:before'',
      ''move:before'', ''wheel'']"

definition ObjectPointerEvents :: "string list" where
  "ObjectPointerEvents = TPointerEvents ''mouse''"

definition CanvasPointerEvents :: "string list" where
  "CanvasPointerEvents = TPointerEvents ''mouse:''"

definition TModificationEvents :: "string list" where
  "TModificationEvents = [''moving'', ''scaling'', ''rotating'', ''skewing'', ''resizing'']"

definition ObjectModifiedEvents :: "string list" where
  "ObjectModifiedEvents = TModificationEvents @ [''modified'']"

definition CanvasModifiedEvents :: "string list" where
  "CanvasModifiedEvents = map (\<lambda>k. ''object:'' @ k) ObjectModifiedEvents"

definition DnDEvents :: "string list" where
  "DnDEvents =
     [''dragstart'', ''drag'', ''dragover'', ''dragenter'', ''dragleave'', ''dragend'',
      ''drop:before'', ''drop'', ''drop:after'']"

definition CanvasDnDEvents :: "string list" where
  "CanvasDnDEvents = DnDEvents @ [''drag:enter'', ''drag:leave'']"

definition CanvasSelectionEvents :: "string list" where
  "CanvasSelectionEvents =
     [''selection:created'', ''selection:updated'', ''before:selection:cleared'',
      ''selection:cleared'']"

definition CollectionEvents :: "string list" where
  "CollectionEvents = [''object:added'', ''object:removed'']"

definition ObjectEvents :: "string list" where
  "ObjectEvents =
     ObjectPointerEvents @ DnDEvents @ ObjectModifiedEvents @
     [''selected'', ''deselected'', ''added'', ''removed'', ''erasing:end'']"

definition StaticCanvasEvents :: "string list" where
  "StaticCanvasEvents =
     CollectionEvents @ [''canvas:cleared'', ''before:render'', ''after:render'']"

definition CanvasEvents :: "string list" where
  "CanvasEvents =
     StaticCanvasEvents @ CanvasPointerEvents @ CanvasDnDEvents @ CanvasModifiedEvents @
     CanvasSelectionEvents @
     [''before:path:created'', ''path:created'', ''erasing:start'', ''erasing:end'',
      ''text:selection:changed'', ''text:changed'', ''text:editing:entered'',
      ''text:editing:exited'', ''contextmenu:before'', ''contextmenu'']"

text \<open>
  The interaction kinds whose names the properties below look up: the pointer kinds, the
  phases of drag and drop, and the selection changes.
\<close>

definition pointer_kinds :: "string list" where
  "pointer_kinds = [''down'', ''move'', ''up'', ''dblclick'', ''wheel'', ''over'', ''out'']"

definition dnd_phases :: "string list" where
  "dnd_phases =
     [''dragstart'', ''drag'', ''dragover'', ''dragenter'', ''dragleave'', ''dragend'', ''drop'']"

definition selection_changes :: "string list" where
  "selection_changes = [''selection:created'', ''selection:updated'', ''selection:cleared'']"

section \<open>Transforms\<close>

text \<open>
  An object is referred to by its identity. \<open>corner: string | 0\<close> is a control's name or
  0, no corner.
\<close>

type_synonym FabricObject = nat

datatype Corner = Corner string | NoCorner

text \<open>
  The type \<open>Transform\<close>. Numbers that are only stored and copied are reals. \<open>TOriginX\<close> and
  \<open>TOriginY\<close> are declared in \<open>./typedefs\<close> and the result type of \<open>saveObjectTransform\<close>
  in \<open>./util/misc/objectTransforms\<close>: they are the type parameters \<open>'x\<close>, \<open>'y\<close> and
  \<open>'o\<close>, where \<open>'o\<close> stands for the transform-relevant properties of an object, origin
  included. The field \<open>actionHandler\<close> takes the transform as an argument, so it is added
  last, by a record extension: the handler sees every other field.
\<close>

record ('o, 'x, 'y) TransformData =
  target :: FabricObject
  action :: string
  corner :: Corner
  scaleX :: real
  scaleY :: real
  skewX :: real
  skewY :: real
  offsetX :: real
  offsetY :: real
  originX :: 'x
  originY :: 'y
  ex :: real
  ey :: real
  lastX :: real
  lastY :: real
  theta :: real
  width :: real
  height :: real
  shiftKey :: bool
  altKey :: bool
  original :: 'o
  actionPerformed :: bool

text \<open>
  \<open>TransformActionHandler\<close>: \<open>(eventData, transform, x, y) => boolean\<close>, with \<open>'e\<close> for
  \<open>TPointerEvent\<close>. The handler changes the target it reaches through the transform: the
  model passes it the target's properties and gets the new ones back with the result.
\<close>

type_synonym ('e, 'o, 'x, 'y) TransformActionHandler =
  "'e \<Rightarrow> ('o, 'x, 'y) TransformData \<Rightarrow> real \<Rightarrow> real \<Rightarrow> 'o \<Rightarrow> bool \<times> 'o"

record ('e, 'o, 'x, 'y) Transform = "('o, 'x, 'y) TransformData" +
  actionHandler :: "('e, 'o, 'x, 'y) TransformActionHandler"

subsection \<open>The transform state machine\<close>

text \<open>
  Modelled from the spec: the control descriptor of the Control Registry (section 3,
  "Control"), whose code is not among the sources. Of a descriptor the transitions use
  the action name and the bound action handler.
\<close>

datatype ('e, 'o, 'x, 'y) Control =
  Control (actionName: string) (handler: "('e, 'o, 'x, 'y) TransformActionHandler")

text \<open>
  Modelled from the spec: the Control Registry (section 4.1), whose code is not among the
  sources. \<open>lookup\<close> gives the descriptor registered for a corner of an object, or nothing
  (NotFound); \<open>draggable\<close> says whether the object can be dragged as a whole and \<open>drag\<close>
  is the control of that drag. \<open>blank\<close> gives, from the event, the pointer position and
  the target's properties, the fields of a new transform that the spec does not fix
  (factors, offsets, origin, last position, angle, size, modifier keys).
\<close>

record ('e, 'o, 'x, 'y) Registry =
  lookup :: "FabricObject \<Rightarrow> string \<Rightarrow> ('e, 'o, 'x, 'y) Control option"
  draggable :: "FabricObject \<Rightarrow> bool"
  drag :: "('e, 'o, 'x, 'y) Control"
  blank :: "'e \<Rightarrow> real \<Rightarrow> real \<Rightarrow> 'o \<Rightarrow> ('e, 'o, 'x, 'y) Transform"

text \<open>
  Modelled from the spec: the two states of the Transform State Machine (section 4.2),
  whose code is not among the sources: Idle, no transform for this target, and Active, one
  transform in progress.
\<close>

datatype ('e, 'o, 'x, 'y) State = Idle | Active "('e, 'o, 'x, 'y) Transform"

text \<open>
  Modelled from the spec: what the state machine sends out (sections 4.2 and 6), whose code
  is not among the sources: the "modified" event of a target, with the original and the
  current properties, and the call of the invalidate hook for a target.
\<close>

datatype 'o Notification = Modified FabricObject 'o 'o | Invalidate FabricObject

text \<open>
  Modelled from the spec: the data of the Transform State Machine (sections 2 and 4.2),
  whose code is not among the sources: the state of every target (one slot per target),
  the current properties of every object, and what was sent out so far.
\<close>

record ('e, 'o, 'x, 'y) Machine =
  state :: "FabricObject \<Rightarrow> ('e, 'o, 'x, 'y) State"
  props :: "FabricObject \<Rightarrow> 'o"
  emitted :: "'o Notification list"

text \<open>
  Modelled from the spec: the resolution of target and corner at a pointer-down (sections
  4.1 and 4.2), whose code is not among the sources. A corner with a registered control
  yields that control; a corner that is not found, or no corner, falls back to the drag of
  the whole object, when the object is draggable.
\<close>

definition resolve ::
  "('e, 'o, 'x, 'y) Registry \<Rightarrow> FabricObject \<Rightarrow> Corner \<Rightarrow>
     (Corner \<times> ('e, 'o, 'x, 'y) Control) option" where
  "resolve reg obj c =
     (case (case c of Corner cid \<Rightarrow> lookup reg obj cid | NoCorner \<Rightarrow> None) of
        Some ctl \<Rightarrow> Some (c, ctl)
      | None \<Rightarrow> if draggable reg obj then Some (NoCorner, drag reg) else None)"

text \<open>
  Modelled from the spec: the transition Idle to Active (section 4.2) and the rejection of
  a start while Active (sections 3, 5 and 7), whose code is not among the sources. The new
  transform has the target, the control's action and handler, the corner, \<open>original\<close> a
  snapshot of the target's current properties, \<open>ex\<close> and \<open>ey\<close> the down position and
  \<open>actionPerformed\<close> false. A start for a target that is Active changes nothing.
\<close>

definition pointerDown ::
  "('e, 'o, 'x, 'y) Registry \<Rightarrow> 'e \<Rightarrow> FabricObject \<Rightarrow> Corner \<Rightarrow> real \<Rightarrow> real \<Rightarrow>
     ('e, 'o, 'x, 'y) Machine \<Rightarrow> ('e, 'o, 'x, 'y) Machine" where
  "pointerDown reg e obj c x y m =
     (case state m obj of
        Active t \<Rightarrow> m
      | Idle \<Rightarrow>
          (case resolve reg obj c of
             None \<Rightarrow> m
           | Some (c', ctl) \<Rightarrow>
               m\<lparr>state := (state m)(obj := Active
                   ((blank reg e x y (props m obj))
                      \<lparr>target := obj, action := actionName ctl, corner := c',
                       ex := x, ey := y, original := props m obj,
                       actionPerformed := False, actionHandler := handler ctl\<rparr>))\<rparr>))"

text \<open>
  Modelled from the spec: the transition Active to Active (section 4.2), whose code is not
  among the sources. The bound handler is called with the event, the transform and the
  position, and returns whether it changed the target; if it did, \<open>actionPerformed\<close> is
  set, \<open>lastX\<close> and \<open>lastY\<close> become the position, and the invalidate hook is called.
  (The sentence of the spec can also be read as updating \<open>lastX\<close> and \<open>lastY\<close> at every
  move; nothing proved below depends on when they are updated.)
\<close>

definition pointerMove ::
  "'e \<Rightarrow> FabricObject \<Rightarrow> real \<Rightarrow> real \<Rightarrow>
     ('e, 'o, 'x, 'y) Machine \<Rightarrow> ('e, 'o, 'x, 'y) Machine" where
  "pointerMove e obj x y m =
     (case state m obj of
        Idle \<Rightarrow> m
      | Active t \<Rightarrow>
          (case actionHandler t e (TransformData.truncate t) x y (props m obj) of
             (mutated, p) \<Rightarrow>
               if mutated
               then m\<lparr>state := (state m)(obj := Active
                          (t\<lparr>actionPerformed := True, lastX := x, lastY := y\<rparr>)),
                      props := (props m)(obj := p),
                      emitted := emitted m @ [Invalidate obj]\<rparr>
               else m\<lparr>props := (props m)(obj := p)\<rparr>))"

text \<open>
  Modelled from the spec: the transition Active to Idle (sections 4.2 and 5), whose code is
  not among the sources. If \<open>actionPerformed\<close> is true a "modified" event is sent,
  otherwise none; then the transform is cleared. The target's properties stay as the last
  handler left them.
\<close>

definition finish ::
  "FabricObject \<Rightarrow> ('e, 'o, 'x, 'y) Machine \<Rightarrow> ('e, 'o, 'x, 'y) Machine" where
  "finish obj m =
     (case state m obj of
        Idle \<Rightarrow> m
      | Active t \<Rightarrow>
          m\<lparr>emitted :=
              (if actionPerformed t
               then emitted m @ [Modified obj (original t) (props m obj)]
               else emitted m),
            state := (state m)(obj := Idle)\<rparr>)"

text \<open>
  Modelled from the spec: the inputs that the Event Router delivers to the state machine
  (sections 2 and 4.2), whose code is not among the sources: a pointer-down on a corner of
  a target at a position, a pointer-move routed to a target, and the three ends of a
  gesture, pointer-up, loss of pointer capture and explicit cancellation.
\<close>

datatype 'e Input =
    PointerDown 'e FabricObject Corner real real
  | PointerMove 'e FabricObject real real
  | PointerUp FabricObject
  | CaptureLost FabricObject
  | Cancel FabricObject

text \<open>
  Modelled from the spec: one input is processed to its end before the next (sections 4.2
  and 5); the code is not among the sources.
\<close>

fun step ::
  "('e, 'o, 'x, 'y) Registry \<Rightarrow> ('e, 'o, 'x, 'y) Machine \<Rightarrow> 'e Input \<Rightarrow>
     ('e, 'o, 'x, 'y) Machine" where
  "step reg m (PointerDown e obj c x y) = pointerDown reg e obj c x y m"
| "step reg m (PointerMove e obj x y) = pointerMove e obj x y m"
| "step reg m (PointerUp obj) = finish obj m"
| "step reg m (CaptureLost obj) = finish obj m"
| "step reg m (Cancel obj) = finish obj m"

text \<open>
  Modelled from the spec: inputs are processed strictly in the order of their delivery
  (section 4.2); the code is not among the sources.
\<close>

definition run ::
  "('e, 'o, 'x, 'y) Registry \<Rightarrow> ('e, 'o, 'x, 'y) Machine \<Rightarrow> 'e Input list \<Rightarrow>
     ('e, 'o, 'x, 'y) Machine" where
  "run reg m inputs = foldl (step reg) m inputs"

subsection \<open>Observations of a gesture\<close>

text \<open>A pointer-move: the event and the position. The moves of a gesture as inputs.\<close>

type_synonym 'e Move = "'e \<times> real \<times> real"

definition moves :: "FabricObject \<Rightarrow> 'e Move list \<Rightarrow> 'e Input list" where
  "moves obj ms = map (\<lambda>(e, x, y). PointerMove e obj x y) ms"

text \<open>What the bound handler returns for a move in a state (false when none is called).\<close>

definition returned ::
  "('e, 'o, 'x, 'y) Machine \<Rightarrow> FabricObject \<Rightarrow> 'e Move \<Rightarrow> bool" where
  "returned m obj mv =
     (case mv of (e, x, y) \<Rightarrow>
        (case state m obj of
           Idle \<Rightarrow> False
         | Active t \<Rightarrow> fst (actionHandler t e (TransformData.truncate t) x y (props m obj))))"

text \<open>The results of the handler calls along a list of moves, in order.\<close>

fun results ::
  "('e, 'o, 'x, 'y) Machine \<Rightarrow> FabricObject \<Rightarrow> 'e Move list \<Rightarrow> bool list" where
  "results m obj [] = []"
| "results m obj ((e, x, y) # ms) =
     returned m obj (e, x, y) # results (pointerMove e obj x y m) obj ms"

text \<open>The "modified" events of a target among what was sent out.\<close>

definition modifications :: "FabricObject \<Rightarrow> 'o Notification list \<Rightarrow> 'o Notification list" where
  "modifications obj ns =
     filter (\<lambda>n. case n of Modified obj' _ _ \<Rightarrow> obj' = obj | Invalidate _ \<Rightarrow> False) ns"

section \<open>Selection events\<close>

text \<open>
  The events of \<open>CanvasSelectionEvents\<close> with what they carry: the pointer event \<open>e\<close>
  (optional for the two clearing events) and the lists \<open>selected\<close> and \<open>deselected\<close>.
\<close>

datatype 'e SelectionEvent =
    SelectionCreated 'e "FabricObject list"
  | SelectionUpdated 'e "FabricObject list" "FabricObject list"
  | BeforeSelectionCleared "'e option" "FabricObject list"
  | SelectionCleared "'e option" "FabricObject list"

text \<open>
  Modelled from the spec: the selection that the Event Router keeps and the selection
  events it has fired (section 4.3); the code is not among the sources.
\<close>

record 'e Selection =
  selection :: "FabricObject list"
  fired :: "'e SelectionEvent list"

text \<open>
  Modelled from the spec: a click on empty canvas space (sections 4.3 and 8), whose code is
  not among the sources. The cancellable notification \<open>before:selection:cleared\<close> fires
  first, with the whole selection as \<open>deselected\<close>; \<open>veto\<close> says whether a subscriber
  vetoes it. Without a veto the selection is cleared and \<open>selection:cleared\<close> fires once
  with the same list.
\<close>

definition clickEmpty ::
  "('e SelectionEvent \<Rightarrow> bool) \<Rightarrow> 'e \<Rightarrow> 'e Selection \<Rightarrow> 'e Selection" where
  "clickEmpty veto e s =
     (let deselected = selection s;
          before = BeforeSelectionCleared (Some e) deselected
      in if veto before
         then s\<lparr>fired := fired s @ [before]\<rparr>
         else s\<lparr>selection := [],
                fired := fired s @ [before, SelectionCleared (Some e) deselected]\<rparr>)"

section \<open>Examples\<close>

text \<open>
  A registry with a control \<open>tr\<close> whose handler always changes the target and a control
  \<open>mtr\<close> whose handler never does, over objects whose properties are a position; a new
  transform starts with \<open>lastX\<close> and \<open>lastY\<close> at the down position.
\<close>

definition scaleHandler :: "(unit, real \<times> real, string, string) TransformActionHandler" where
  "scaleHandler e t x y p = (True, (x, y))"

definition stillHandler :: "(unit, real \<times> real, string, string) TransformActionHandler" where
  "stillHandler e t x y p = (False, p)"

definition exampleBlank ::
  "unit \<Rightarrow> real \<Rightarrow> real \<Rightarrow> real \<times> real \<Rightarrow> (unit, real \<times> real, string, string) Transform" where
  "exampleBlank e x y p =
     \<lparr>target = 0, action = [], corner = NoCorner, scaleX = 1, scaleY = 1, skewX = 0,
      skewY = 0, offsetX = 0, offsetY = 0, originX = ''left'', originY = ''top'',
      ex = x, ey = y, lastX = x, lastY = y, theta = 0, width = 10, height = 10,
      shiftKey = False, altKey = False, original = p, actionPerformed = False,
      actionHandler = stillHandler\<rparr>"

definition exampleRegistry :: "(unit, real \<times> real, string, string) Registry" where
  "exampleRegistry =
     \<lparr>lookup = (\<lambda>obj cid.
         if cid = ''tr'' then Some (Control ''scale'' scaleHandler)
         else if cid = ''mtr'' then Some (Control ''rotate'' stillHandler)
         else None),
      draggable = (\<lambda>obj. True),
      drag = Control ''drag'' scaleHandler,
      blank = exampleBlank\<rparr>"

definition exampleMachine :: "(unit, real \<times> real, string, string) Machine" where
  "exampleMachine = \<lparr>state = (\<lambda>obj. Idle), props = (\<lambda>obj. (0, 0)), emitted = []\<rparr>"

section \<open>Properties of the RemoveColor filter\<close>

subsection \<open>The loop\<close>

lemma applyTo2d_loop_unfold:
  "applyTo2d_loop num lowC highC i data =
     (if i < length data then
        applyTo2d_loop num lowC highC (i + 4)
          (if in_band num lowC highC data i then data[i + 3 := 0] else data)
      else data)"
  by (subst applyTo2d_loop.simps) (simp add: in_band_def Let_def)

lemma length_applyTo2d_loop:
  "length (applyTo2d_loop num lowC highC i data) = length data"
proof (induction num lowC highC i data rule: applyTo2d_loop.induct)
  case (1 num lowC highC i data)
  show ?case
  proof (cases "i < length data")
    case True
    then show ?thesis
      using "1.IH" [OF True refl refl refl]
      by (subst applyTo2d_loop.simps) (simp add: Let_def)
  next
    case False
    then show ?thesis
      by (subst applyTo2d_loop.simps) simp
  qed
qed

lemma in_band_update:
  "i + 4 \<le> p \<Longrightarrow> in_band num lowC highC (data[i + 3 := v]) p = in_band num lowC highC data p"
  by (simp add: in_band_def read_def)

lemma applyTo2d_loop_step:
  "i < length data \<Longrightarrow>
   applyTo2d_loop num lowC highC i data =
     applyTo2d_loop num lowC highC (i + 4)
       (if in_band num lowC highC data i then data[i + 3 := 0] else data)"
  by (subst applyTo2d_loop_unfold) simp

lemma applyTo2d_loop_stop:
  "\<not> i < length data \<Longrightarrow> applyTo2d_loop num lowC highC i data = data"
  by (subst applyTo2d_loop_unfold) simp

text \<open>The loop started at \<open>i\<close> writes only at the indices \<open>i + 4 * k + 3\<close>.\<close>

lemma applyTo2d_loop_frame:
  "j < length data \<Longrightarrow> \<forall>k. j \<noteq> i + 4 * k + 3 \<Longrightarrow>
   applyTo2d_loop num lowC highC i data ! j = data ! j"
proof (induction num lowC highC i data rule: applyTo2d_loop.induct)
  case (1 num lowC highC i data)
  let ?data' = "if in_band num lowC highC data i then data[i + 3 := 0] else data"
  show ?case
  proof (cases "i < length data")
    case False
    then show ?thesis by (simp add: applyTo2d_loop_stop)
  next
    case True
    have here: "j \<noteq> i + 3"
      using "1.prems"(2) [rule_format, of 0] by simp
    have later: "\<forall>k. j \<noteq> i + 4 + 4 * k + 3"
    proof
      fix k
      show "j \<noteq> i + 4 + 4 * k + 3"
        using "1.prems"(2) [rule_format, of "Suc k"] by simp
    qed
    have "applyTo2d_loop num lowC highC (i + 4) ?data' ! j = ?data' ! j"
      using "1.IH" [OF True refl refl refl] "1.prems"(1) later by (simp add: in_band_def)
    with here show ?thesis
      by (simp add: applyTo2d_loop_step [OF True])
  qed
qed

text \<open>At the index \<open>i + 4 * k + 3\<close> it writes 0 when the pixel passes the test.\<close>

lemma applyTo2d_loop_alpha:
  "i + 4 * k + 3 < length data \<Longrightarrow>
   applyTo2d_loop num lowC highC i data ! (i + 4 * k + 3) =
     (if in_band num lowC highC data (i + 4 * k) then 0 else data ! (i + 4 * k + 3))"
proof (induction num lowC highC i data arbitrary: k rule: applyTo2d_loop.induct)
  case (1 num lowC highC i data)
  let ?data' = "if in_band num lowC highC data i then data[i + 3 := 0] else data"
  have True: "i < length data"
    using "1.prems" by simp
  have step: "applyTo2d_loop num lowC highC i data = applyTo2d_loop num lowC highC (i + 4) ?data'"
    by (rule applyTo2d_loop_step [OF True])
  show ?case
  proof (cases k)
    case 0
    have "applyTo2d_loop num lowC highC (i + 4) ?data' ! (i + 3) = ?data' ! (i + 3)"
      using "1.prems" 0 by (intro applyTo2d_loop_frame) auto
    with "1.prems" 0 show ?thesis
      by (simp add: step)
  next
    case (Suc k')
    define p where "p = i + 4 + 4 * k'"
    have p: "i + 4 * k = p" and ge: "i + 4 \<le> p"
      using Suc by (simp_all add: p_def)
    have len: "p + 3 < length ?data'"
      using "1.prems" p by simp
    have ih: "applyTo2d_loop num lowC highC (i + 4) ?data' ! (p + 3) =
        (if in_band num lowC highC ?data' p then 0 else ?data' ! (p + 3))"
      using "1.IH" [OF True refl refl refl, of k'] len
      unfolding p_def by (simp add: in_band_def)
    have band: "in_band num lowC highC ?data' p = in_band num lowC highC data p"
      using ge by (simp add: in_band_update)
    have nth: "?data' ! (p + 3) = data ! (p + 3)"
      using ge by simp
    show ?thesis
      by (simp only: p step ih band nth)
  qed
qed

subsection \<open>The filter\<close>

lemma applyTo2d_loop_eq:
  "applyTo2d num getSource this data =
     applyTo2d_loop num
       [getSource (color this) 0 - distance this * num 255,
        getSource (color this) 1 - distance this * num 255,
        getSource (color this) 2 - distance this * num 255]
       [getSource (color this) 0 + distance this * num 255,
        getSource (color this) 1 + distance this * num 255,
        getSource (color this) 2 + distance this * num 255]
       0 data"
  by (simp add: applyTo2d_def Let_def)

text \<open>
  C8. For the pixel \<open>p\<close> of the buffer (the bytes \<open>4 * p\<close> to \<open>4 * p + 3\<close>), the alpha byte
  \<open>data[4 * p + 3]\<close> is 0 after \<open>applyTo2d\<close> when each of r, g, b is strictly above
  \<open>source[k] - distance * 255\<close> and strictly below \<open>source[k] + distance * 255\<close>, and is
  what it was before otherwise: a pixel at a boundary of the band is not removed, and
  the alpha of a pixel outside the band is unchanged.
\<close>

theorem applyTo2d_alpha:
  assumes "4 * p + 3 < length data"
  shows "applyTo2d num getSource this data ! (4 * p + 3) =
     (if getSource (color this) 0 - distance this * num 255 < num (unat (data ! (4 * p))) \<and>
         getSource (color this) 1 - distance this * num 255 < num (unat (data ! (4 * p + 1))) \<and>
         getSource (color this) 2 - distance this * num 255 < num (unat (data ! (4 * p + 2))) \<and>
         num (unat (data ! (4 * p))) < getSource (color this) 0 + distance this * num 255 \<and>
         num (unat (data ! (4 * p + 1))) < getSource (color this) 1 + distance this * num 255 \<and>
         num (unat (data ! (4 * p + 2))) < getSource (color this) 2 + distance this * num 255
      then 0 else data ! (4 * p + 3))"
proof -
  let ?d = "distance this * num 255"
  let ?source = "getSource (color this)"
  let ?lowC = "[?source 0 - ?d, ?source 1 - ?d, ?source 2 - ?d]"
  let ?highC = "[?source 0 + ?d, ?source 1 + ?d, ?source 2 + ?d]"
  have "applyTo2d_loop num ?lowC ?highC 0 data ! (0 + 4 * p + 3) =
      (if in_band num ?lowC ?highC data (0 + 4 * p) then 0 else data ! (0 + 4 * p + 3))"
    using assms by (intro applyTo2d_loop_alpha) simp
  then show ?thesis
    using assms by (simp add: applyTo2d_loop_eq in_band_def read_def gt_def lt_def)
qed

text \<open>
  White with \<open>distance\<close> 0.2, a band from 204 to 306: the first pixel is inside and loses
  its alpha, the second has its red channel on the boundary and keeps it.
\<close>

theorem applyTo2d_alpha_witness:
  "4 * 0 + 3 < length [250, 251, 252, 255, 204, 230, 230, 255 :: 8 word] \<and>
   4 * 1 + 3 < length [250, 251, 252, 255, 204, 230, 230, 255 :: 8 word] \<and>
   applyTo2d real (\<lambda>c k. if k < 3 then 255 else 1)
     \<lparr>type = ''RemoveColor'', color = ''#FFFFFF'', fragmentSource = [],
      distance = 2 / 10, useAlpha = False\<rparr>
     [250, 251, 252, 255, 204, 230, 230, 255] ! (4 * 0 + 3) = 0 \<and>
   applyTo2d real (\<lambda>c k. if k < 3 then 255 else 1)
     \<lparr>type = ''RemoveColor'', color = ''#FFFFFF'', fragmentSource = [],
      distance = 2 / 10, useAlpha = False\<rparr>
     [250, 251, 252, 255, 204, 230, 230, 255] ! (4 * 1 + 3) = 255"
  using
    applyTo2d_alpha [of 0 "[250, 251, 252, 255, 204, 230, 230, 255]" real
      "\<lambda>c k. if k < 3 then 255 else 1"
      "\<lparr>type = ''RemoveColor'', color = ''#FFFFFF'', fragmentSource = [],
        distance = 2 / 10, useAlpha = False\<rparr>"]
    applyTo2d_alpha [of 1 "[250, 251, 252, 255, 204, 230, 230, 255]" real
      "\<lambda>c k. if k < 3 then 255 else 1"
      "\<lparr>type = ''RemoveColor'', color = ''#FFFFFF'', fragmentSource = [],
        distance = 2 / 10, useAlpha = False\<rparr>"]
  by simp

text \<open>
  C9. \<open>applyTo2d\<close> keeps the length of the buffer, and every byte that is not an alpha
  byte (index \<open>j\<close> with \<open>j mod 4 \<noteq> 3\<close>: the r, g and b channels) is after the call what
  it was before.
\<close>

theorem applyTo2d_frame:
  "length (applyTo2d num getSource this data) = length data \<and>
   (\<forall>j<length data. j mod 4 \<noteq> 3 \<longrightarrow> applyTo2d num getSource this data ! j = data ! j)"
proof (intro conjI allI impI)
  show "length (applyTo2d num getSource this data) = length data"
    by (simp add: applyTo2d_loop_eq length_applyTo2d_loop)
next
  fix j
  assume j: "j < length data" and rgb: "j mod 4 \<noteq> 3"
  have "\<forall>k. j \<noteq> 0 + 4 * k + 3"
  proof (intro allI notI)
    fix k
    assume "j = 0 + 4 * k + 3"
    then have "j mod 4 = 3" by simp
    with rgb show False by simp
  qed
  from applyTo2d_loop_frame [OF j this] show "applyTo2d num getSource this data ! j = data ! j"
    by (simp add: applyTo2d_loop_eq)
qed

theorem applyTo2d_frame_witness:
  "length (applyTo2d real (\<lambda>c k. if k < 3 then 255 else 1)
     \<lparr>type = ''RemoveColor'', color = ''#FFFFFF'', fragmentSource = [],
      distance = 2 / 100, useAlpha = False\<rparr>
     [250, 251, 252, 255]) = 4 \<and>
   (2::nat) < length [250, 251, 252, 255 :: 8 word] \<and> (2::nat) mod 4 \<noteq> 3 \<and>
   applyTo2d real (\<lambda>c k. if k < 3 then 255 else 1)
     \<lparr>type = ''RemoveColor'', color = ''#FFFFFF'', fragmentSource = [],
      distance = 2 / 100, useAlpha = False\<rparr>
     [250, 251, 252, 255] ! 2 = 252"
  using applyTo2d_frame [of real "\<lambda>c k. if k < 3 then 255 else 1"
     "\<lparr>type = ''RemoveColor'', color = ''#FFFFFF'', fragmentSource = [],
      distance = 2 / 100, useAlpha = False\<rparr>" "[250, 251, 252, 255]"]
  by simp

text \<open>
  C10. The flag \<open>useAlpha\<close> has no influence on \<open>applyTo2d\<close>: two filters that differ
  only in \<open>useAlpha\<close> turn the same buffer into the same buffer.
\<close>

theorem applyTo2d_useAlpha:
  "applyTo2d num getSource (this\<lparr>useAlpha := b\<rparr>) data = applyTo2d num getSource this data"
  by (simp add: applyTo2d_def)

section \<open>Properties of the side-effect reactors\<close>

lemma strict_equal_iff: "strict_equal x y \<longleftrightarrow> x = y \<and> x \<noteq> Number NaN"
  by (cases "(x, y)" rule: strict_equal.cases) auto

text \<open>
  C1, as amended. \<open>invoke(key, value, prevValue)\<close> calls \<open>onChange(key, value, prevValue)\<close>,
  once, if and only if \<open>keys\<close> is \<open>'*'\<close> or contains \<open>key\<close>, and \<open>value !== prevValue\<close>, which
  holds when the two values differ and also when both are NaN; otherwise it calls nothing.
  In particular \<open>invoke(key, v, v)\<close> never calls \<open>onChange\<close> for a value \<open>v\<close> other than
  NaN.
\<close>

theorem invoke_onChange:
  "invoke this key value prevValue =
     (if (keys this = Star \<or> (\<exists>ks. keys this = Keys ks \<and> key \<in> set ks)) \<and>
         (value \<noteq> prevValue \<or> value = Number NaN)
      then [OnChange key value prevValue] else []) \<and>
   (v \<noteq> Number NaN \<longrightarrow> invoke this key v v = [])"
  by (auto simp add: invoke_def strict_equal_iff split: Keys.splits)

theorem invoke_onChange_witness:
  "invoke \<lparr>name = ''size'', keys = Keys [''width'', ''height'']\<rparr> ''width''
       (Number (Finite 20)) (Number (Finite 10)) =
     [OnChange ''width'' (Number (Finite 20)) (Number (Finite 10))] \<and>
   Number (Finite 10) \<noteq> Number NaN \<and>
   invoke \<lparr>name = ''size'', keys = Keys [''width'', ''height'']\<rparr> ''width''
       (Number (Finite 10)) (Number (Finite 10)) = []"
  using invoke_onChange [of "\<lparr>name = ''size'', keys = Keys [''width'', ''height'']\<rparr>" "''width''"
      "Number (Finite 20)" "Number (Finite 10)" "Number (Finite 10)"]
  by simp

text \<open>
  The claim as stated fails for NaN: \<open>NaN !== NaN\<close> is true, so \<open>invoke(key, NaN, NaN)\<close>
  on a watched key calls \<open>onChange\<close>.
\<close>

theorem invoke_NaN_counterexample:
  "invoke \<lparr>name = ''any'', keys = Star\<rparr> ''width'' (Number NaN) (Number NaN) =
     [OnChange ''width'' (Number NaN) (Number NaN)]"
  by (simp add: invoke_def)

section \<open>Properties of the event names\<close>

lemmas event_defs =
  BeforeSuffix_def WithBeforeSuffix_def TPointerEvents_def ObjectPointerEvents_def
  CanvasPointerEvents_def TModificationEvents_def ObjectModifiedEvents_def
  CanvasModifiedEvents_def DnDEvents_def CanvasDnDEvents_def CanvasSelectionEvents_def
  CollectionEvents_def ObjectEvents_def StaticCanvasEvents_def CanvasEvents_def

lemma CanvasEvents_eq:
  "CanvasEvents =
    [''object:added'', ''object:removed'', ''canvas:cleared'', ''before:render'',
     ''after:render'',
     ''mouse:down'', ''mouse:down:before'', ''mouse:move'', ''mouse:move:before'',
     ''mouse:up'', ''mouse:up:before'', ''mouse:dblclick'', ''mouse:wheel'', ''mouse:over'',
     ''mouse:out'',
     ''dragstart'', ''drag'', ''dragover'', ''dragenter'', ''dragleave'', ''dragend'',
     ''drop:before'', ''drop'', ''drop:after'', ''drag:enter'', ''drag:leave'',
     ''object:moving'', ''object:scaling'', ''object:rotating'', ''object:skewing'',
     ''object:resizing'', ''object:modified'',
     ''selection:created'', ''selection:updated'', ''before:selection:cleared'',
     ''selection:cleared'',
     ''before:path:created'', ''path:created'', ''erasing:start'', ''erasing:end'',
     ''text:selection:changed'', ''text:changed'', ''text:editing:entered'',
     ''text:editing:exited'', ''contextmenu:before'', ''contextmenu'']"
  by (simp add: event_defs)

lemma ObjectEvents_eq:
  "ObjectEvents =
    [''mousedown'', ''mousedown:before'', ''mousemove'', ''mousemove:before'',
     ''mouseup'', ''mouseup:before'', ''mousedblclick'', ''mousewheel'', ''mouseover'',
     ''mouseout'',
     ''dragstart'', ''drag'', ''dragover'', ''dragenter'', ''dragleave'', ''dragend'',
     ''drop:before'', ''drop'', ''drop:after'',
     ''moving'', ''scaling'', ''rotating'', ''skewing'', ''resizing'', ''modified'',
     ''selected'', ''deselected'', ''added'', ''removed'', ''erasing:end'']"
  by (simp add: event_defs)

text \<open>
  The suffixes listed by \<open>TPointerEventsSuffixes\<close> are the pointer kinds that the object
  events have, without \<open>over\<close> and \<open>out\<close>: its \<open>:before\<close> names are those of \<open>down\<close>,
  \<open>move\<close> and \<open>up\<close> only.
\<close>

lemma TPointerEventsSuffixes_before:
  "BeforeSuffix k \<in> set TPointerEventsSuffixes \<longleftrightarrow> k \<in> {''down'', ''move'', ''up''}"
  by (auto simp add: TPointerEventsSuffixes_def BeforeSuffix_def)

text \<open>
  What the declared types contain. For every pointer kind (down, move, up, dblclick, wheel,
  over, out) the canvas events and the object events contain the name without suffix, and
  they contain its \<open>:before\<close> name exactly for down, move and up. For every phase of drag
  and drop they contain the name without suffix, and its \<open>:before\<close> and \<open>:after\<close> names
  exactly for \<open>drop\<close>. For every selection change the canvas events contain the name
  without suffix, no \<open>:before\<close> name, and the name prefixed with \<open>before:\<close> exactly for
  \<open>selection:cleared\<close>.
\<close>

lemma declared_before_names:
  "(\<forall>k \<in> set pointer_kinds.
      ''mouse:'' @ k \<in> set CanvasEvents \<and> ''mouse'' @ k \<in> set ObjectEvents \<and>
      (BeforeSuffix (''mouse:'' @ k) \<in> set CanvasEvents \<longleftrightarrow> k \<in> {''down'', ''move'', ''up''}) \<and>
      (BeforeSuffix (''mouse'' @ k) \<in> set ObjectEvents \<longleftrightarrow> k \<in> {''down'', ''move'', ''up''})) \<and>
   (\<forall>k \<in> set dnd_phases.
      k \<in> set CanvasEvents \<and> k \<in> set ObjectEvents \<and>
      (BeforeSuffix k \<in> set CanvasEvents \<longleftrightarrow> k = ''drop'') \<and>
      (BeforeSuffix k \<in> set ObjectEvents \<longleftrightarrow> k = ''drop'') \<and>
      (k @ '':after'' \<in> set CanvasEvents \<longleftrightarrow> k = ''drop'') \<and>
      (k @ '':after'' \<in> set ObjectEvents \<longleftrightarrow> k = ''drop'')) \<and>
   (\<forall>k \<in> set selection_changes.
      k \<in> set CanvasEvents \<and> BeforeSuffix k \<notin> set CanvasEvents \<and>
      (''before:'' @ k \<in> set CanvasEvents \<longleftrightarrow> k = ''selection:cleared''))"
  unfolding CanvasEvents_eq ObjectEvents_eq pointer_kinds_def dnd_phases_def
    selection_changes_def BeforeSuffix_def
  by simp

section \<open>Properties of the transform state machine\<close>

lemma run_Nil: "run reg m [] = m"
  by (simp add: run_def)

lemma run_Cons: "run reg m (i # inputs) = run reg (step reg m i) inputs"
  by (simp add: run_def)

lemma run_append: "run reg m (xs @ ys) = run reg (run reg m xs) ys"
  by (simp add: run_def)

lemma moves_Cons: "moves obj ((e, x, y) # ms) = PointerMove e obj x y # moves obj ms"
  by (simp add: moves_def)

lemma pointerMove_Active:
  assumes "state m obj = Active t"
  shows "state (pointerMove e obj x y m) obj =
     Active (if returned m obj (e, x, y)
             then t\<lparr>actionPerformed := True, lastX := x, lastY := y\<rparr> else t)"
  using assms by (simp add: pointerMove_def returned_def split: prod.splits)

lemma pointerMove_modifications:
  "modifications obj (emitted (pointerMove e obj x y m)) = modifications obj (emitted m)"
  by (simp add: pointerMove_def modifications_def split: State.splits prod.splits)

lemma pointerMove_Idle:
  "state m obj = Idle \<Longrightarrow> pointerMove e obj x y m = m"
  by (simp add: pointerMove_def)

text \<open>
  Along the moves of a gesture the target stays Active; \<open>actionPerformed\<close> is true from
  the first move on whose handler returns true, and the fields set at the start stay.
\<close>

lemma run_moves_Active:
  assumes "state m obj = Active t"
  shows "\<exists>t'. state (run reg m (moves obj ms)) obj = Active t' \<and>
     actionPerformed t' = (actionPerformed t \<or> True \<in> set (results m obj ms)) \<and>
     original t' = original t \<and> target t' = target t \<and> corner t' = corner t \<and>
     ex t' = ex t \<and> ey t' = ey t"
  using assms
proof (induction ms arbitrary: m t)
  case Nil
  then show ?case by (simp add: moves_def run_Nil)
next
  case (Cons mv ms)
  obtain e x y where mv: "mv = (e, x, y)"
    by (cases mv) auto
  let ?t = "if returned m obj (e, x, y)
            then t\<lparr>actionPerformed := True, lastX := x, lastY := y\<rparr> else t"
  have act: "state (pointerMove e obj x y m) obj = Active ?t"
    by (rule pointerMove_Active [OF Cons.prems])
  from Cons.IH [OF act] obtain t' where
    t': "state (run reg (pointerMove e obj x y m) (moves obj ms)) obj = Active t'"
      "actionPerformed t' =
         (actionPerformed ?t \<or> True \<in> set (results (pointerMove e obj x y m) obj ms))"
      "original t' = original ?t" "target t' = target ?t" "corner t' = corner ?t"
      "ex t' = ex ?t" "ey t' = ey ?t"
    by blast
  show ?case
    unfolding mv moves_Cons run_Cons step.simps
    using t' by (intro exI [of _ t']) auto
qed

lemma run_moves_modifications:
  "modifications obj (emitted (run reg m (moves obj ms))) = modifications obj (emitted m)"
proof (induction ms arbitrary: m)
  case Nil
  then show ?case by (simp add: moves_def run_Nil)
next
  case (Cons mv ms)
  obtain e x y where mv: "mv = (e, x, y)"
    by (cases mv) auto
  show ?case
    unfolding mv moves_Cons run_Cons step.simps
    by (simp add: Cons.IH pointerMove_modifications)
qed

lemma run_moves_Idle:
  "state m obj = Idle \<Longrightarrow> run reg m (moves obj ms) = m"
proof (induction ms)
  case Nil
  then show ?case by (simp add: moves_def run_Nil)
next
  case (Cons mv ms)
  obtain e x y where mv: "mv = (e, x, y)"
    by (cases mv) auto
  from Cons show ?case
    unfolding mv moves_Cons run_Cons step.simps
    by (simp add: pointerMove_Idle)
qed

lemma results_Idle:
  "state m obj = Idle \<Longrightarrow> True \<notin> set (results m obj ms)"
proof (induction ms)
  case Nil
  then show ?case by simp
next
  case (Cons mv ms)
  obtain e x y where mv: "mv = (e, x, y)"
    by (cases mv) auto
  from Cons show ?case
    unfolding mv by (simp add: pointerMove_Idle returned_def)
qed

text \<open>
  C3. The machine has one slot per target, so a target has at most one active transform.
  A pointer-down for a target that is Active is ignored: the machine after it is the
  machine before it (the active transform, the properties of every object and what was
  sent out are unchanged, and no error arises), so the target still has the same active
  transform. This lasts until the transform is ended: the end makes the target Idle.
\<close>

theorem start_while_Active:
  assumes "state m obj = Active t"
  shows "step reg m (PointerDown e obj c x y) = m \<and>
     state (step reg m (PointerDown e obj c x y)) obj = Active t \<and>
     state (finish obj m) obj = Idle"
  using assms by (simp add: pointerDown_def finish_def)

theorem start_while_Active_witness:
  "state (exampleMachine\<lparr>state := (\<lambda>obj. Active (exampleBlank () 1 2 (0, 0)))\<rparr>) 1 =
     Active (exampleBlank () 1 2 (0, 0)) \<and>
   step exampleRegistry (exampleMachine\<lparr>state := (\<lambda>obj. Active (exampleBlank () 1 2 (0, 0)))\<rparr>)
     (PointerDown () 1 (Corner ''tr'') 3 4) =
     exampleMachine\<lparr>state := (\<lambda>obj. Active (exampleBlank () 1 2 (0, 0)))\<rparr>"
  using start_while_Active [of "exampleMachine\<lparr>state := (\<lambda>obj. Active (exampleBlank () 1 2 (0, 0)))\<rparr>"
      1 "exampleBlank () 1 2 (0, 0)" exampleRegistry "()" "Corner ''tr''" 3 4]
  by simp

text \<open>
  C4. A gesture on a target that is Idle: a pointer-down, any moves, and an end (pointer-up,
  loss of pointer capture or cancellation). No "modified" event of the target is sent
  before the end; with the end exactly one is sent if the handler returned true for at
  least one move of the gesture, and none otherwise. After the pointer-down and the moves
  the active transform, if the pointer-down started one, has \<open>actionPerformed\<close> true
  exactly if the handler has returned true for one of these moves: this holds for every
  list of moves, so the flag starts false, becomes true with the first true result and
  stays true. The end leaves the target Idle.
\<close>

theorem gesture_modified:
  assumes "state m obj = Idle"
    and "fin \<in> {PointerUp obj, CaptureLost obj, Cancel obj}"
  shows "modifications obj (emitted (run reg m (PointerDown e obj c x y # moves obj ms))) =
       modifications obj (emitted m) \<and>
     length (modifications obj
         (emitted (run reg m (PointerDown e obj c x y # moves obj ms @ [fin])))) =
       length (modifications obj (emitted m)) +
       (if True \<in> set (results (pointerDown reg e obj c x y m) obj ms) then 1 else 0) \<and>
     (\<forall>t. state (run reg m (PointerDown e obj c x y # moves obj ms)) obj = Active t \<longrightarrow>
        actionPerformed t = (True \<in> set (results (pointerDown reg e obj c x y m) obj ms))) \<and>
     state (run reg m (PointerDown e obj c x y # moves obj ms @ [fin])) obj = Idle"
proof -
  let ?m1 = "pointerDown reg e obj c x y m"
  let ?m2 = "run reg ?m1 (moves obj ms)"
  have fin: "step reg ?m2 fin = finish obj ?m2"
    using assms(2) by auto
  have run2: "run reg m (PointerDown e obj c x y # moves obj ms) = ?m2"
    by (simp add: run_Cons)
  have run3: "run reg m (PointerDown e obj c x y # moves obj ms @ [fin]) = finish obj ?m2"
    by (simp add: run_Cons run_append run_Nil fin)
  have down: "modifications obj (emitted ?m1) = modifications obj (emitted m)"
    by (simp add: pointerDown_def split: State.splits option.splits prod.splits)
  have during: "modifications obj (emitted ?m2) = modifications obj (emitted m)"
    by (simp add: run_moves_modifications down)
  show ?thesis
  proof (cases "state ?m1 obj")
    case Idle
    then have "?m2 = ?m1"
      by (rule run_moves_Idle)
    with Idle results_Idle [OF Idle, of ms] during show ?thesis
      unfolding run2 run3 by (simp add: finish_def)
  next
    case (Active t1)
    then have fresh: "actionPerformed t1 = False"
      using assms(1)
      by (auto simp add: pointerDown_def split: option.splits prod.splits if_splits)
    from run_moves_Active [OF Active, of reg ms] obtain t2 where
      t2: "state ?m2 obj = Active t2"
        "actionPerformed t2 = (actionPerformed t1 \<or> True \<in> set (results ?m1 obj ms))"
      by blast
    with fresh during show ?thesis
      unfolding run2 run3 by (simp add: finish_def modifications_def)
  qed
qed

text \<open>
  The scenario of the spec: a pointer-down on \<open>tr\<close>, two moves whose handler returns
  true, a pointer-up: exactly one "modified" event.
\<close>

theorem gesture_modified_witness:
  "state exampleMachine 1 = Idle \<and>
   PointerUp 1 \<in> {PointerUp 1, CaptureLost 1, Cancel 1} \<and>
   length (modifications 1 (emitted (run exampleRegistry exampleMachine
     (PointerDown () 1 (Corner ''tr'') 1 2 # moves 1 [((), 3, 4), ((), 5, 6)] @ [PointerUp 1])))) = 1"
  using gesture_modified [of exampleMachine 1 "PointerUp 1" exampleRegistry "()" "Corner ''tr''" 1 2
      "[((), 3, 4), ((), 5, 6)]"]
  by (simp add: pointerDown_def pointerMove_def resolve_def returned_def exampleRegistry_def
      exampleMachine_def exampleBlank_def scaleHandler_def modifications_def)

text \<open>
  C5. A pointer-down that hits a registered control \<open>c\<close> of an object (or no corner, on a
  draggable object) while the object is Idle makes the object Active with a transform
  whose target is the object, whose corner is \<open>c\<close>, whose \<open>actionPerformed\<close> is false,
  whose \<open>original\<close> is the object's properties at that moment, and whose \<open>ex\<close> and \<open>ey\<close>
  are the position of the pointer-down.
\<close>

theorem start_creates_Transform:
  assumes "state m obj = Idle"
    and "(\<exists>cid. c = Corner cid \<and> lookup reg obj cid \<noteq> None) \<or> (c = NoCorner \<and> draggable reg obj)"
  shows "\<exists>t. state (step reg m (PointerDown e obj c x y)) obj = Active t \<and>
     target t = obj \<and> corner t = c \<and> actionPerformed t = False \<and>
     original t = props m obj \<and> ex t = x \<and> ey t = y"
  using assms
  by (auto simp add: pointerDown_def resolve_def split: option.splits Corner.splits)

theorem start_creates_Transform_witness:
  "state exampleMachine 1 = Idle \<and> lookup exampleRegistry 1 ''tr'' \<noteq> None \<and>
   (\<exists>t. state (step exampleRegistry exampleMachine (PointerDown () 1 (Corner ''tr'') 1 2)) 1 =
       Active t \<and>
     target t = 1 \<and> corner t = Corner ''tr'' \<and> actionPerformed t = False \<and>
     original t = props exampleMachine 1 \<and> ex t = 1 \<and> ey t = 2)"
  using start_creates_Transform [of exampleMachine 1 "Corner ''tr''" exampleRegistry "()" 1 2]
  by (simp add: exampleMachine_def exampleRegistry_def)

section \<open>Properties of the selection events\<close>

text \<open>
  C7. A click on empty canvas space that deselects the selected objects (no subscriber
  vetoes the notification before it) fires exactly two selection events: one
  \<open>before:selection:cleared\<close> and then one \<open>selection:cleared\<close>, both with the whole
  former selection as \<open>deselected\<close>, however many objects it has; the selection is empty
  afterwards.
\<close>

theorem clear_selection:
  assumes "\<not> veto (BeforeSelectionCleared (Some e) (selection s))"
  shows "fired (clickEmpty veto e s) =
       fired s @ [BeforeSelectionCleared (Some e) (selection s),
                  SelectionCleared (Some e) (selection s)] \<and>
     selection (clickEmpty veto e s) = []"
  using assms by (simp add: clickEmpty_def Let_def)

theorem clear_selection_witness:
  "\<not> (\<lambda>ev. False) (BeforeSelectionCleared (Some ()) (selection \<lparr>selection = [1, 2, 3], fired = []\<rparr>)) \<and>
   fired (clickEmpty (\<lambda>ev. False) () \<lparr>selection = [1, 2, 3], fired = []\<rparr>) =
     [BeforeSelectionCleared (Some ()) [1, 2, 3], SelectionCleared (Some ()) [1, 2, 3]]"
  using clear_selection [of "\<lambda>ev. False" "()" "\<lparr>selection = [1, 2, 3], fired = []\<rparr>"]
  by simp

end
